theory Spec2Isabelle
  imports Complex_Main "HOL-Library.Stream"
begin

section \<open>Time\<close>

text \<open>
  Every datetime of \<^verbatim>\<open>bot.py\<close> is built as
  \<^verbatim>\<open>datetime.now(PACIFIC).replace(tzinfo=PACIFIC)\<close> and then moved by
  \<^verbatim>\<open>replace(hour=.., minute=0, second=0, microsecond=0)\<close> and by adding a
  \<^verbatim>\<open>timedelta\<close>. \<^verbatim>\<open>datetime.now(PACIFIC)\<close> reads the US/Pacific wall clock;
  \<^verbatim>\<open>replace(tzinfo=PACIFIC)\<close> keeps the fields read and attaches the pytz zone object
  itself, whose own offset is the local mean time of the zone, -07:53, in winter and in
  summer. All datetimes of the program carry that one offset, and the ISO strings kept in
  the event dictionaries carry it too; so comparing two of them compares their fields,
  and \<^verbatim>\<open>fromisoformat (isoformat t)\<close> compares equal to \<^verbatim>\<open>t\<close>. A timestamp is
  therefore modelled by its reading at the attached offset: the number of microseconds
  since midnight of day 0 of the calendar. The \<^verbatim>\<open>OverflowError\<close> of a date beyond year
  9999 is not modelled.
\<close>

type_synonym timestamp = int

definition timedelta :: "int \<Rightarrow> int \<Rightarrow> int \<Rightarrow> int" where
  \<comment> \<open>\<^verbatim>\<open>timedelta(days=d, hours=h, seconds=s)\<close>, in microseconds\<close>
  "timedelta days hours seconds = days * 86400000000 + hours * 3600000000 + seconds * 1000000"

definition replace_hour :: "timestamp \<Rightarrow> int \<Rightarrow> timestamp" where
  \<comment> \<open>\<^verbatim>\<open>t.replace(hour=h, minute=0, second=0, microsecond=0)\<close>: same date, time of day h:00:00\<close>
  "replace_hour t h = t - t mod 86400000000 + h * 3600000000"

definition date :: "timestamp \<Rightarrow> int" where
  \<comment> \<open>\<^verbatim>\<open>t.date()\<close>, as the ordinal of the day\<close>
  "date t = t div 86400000000"



section \<open>The random module\<close>

text \<open>
  Each call of the \<^verbatim>\<open>random\<close> module consumes one raw output \<open>r\<close> of the generator,
  passed to the model as an argument. \<^verbatim>\<open>randint(a, b)\<close> is \<open>a\<close> plus a number below
  \<open>b - a + 1\<close>, \<^verbatim>\<open>choice(seq)\<close> is the element at an index below \<open>len(seq)\<close>, and
  \<^verbatim>\<open>random()\<close> is a multiple of \<open>2^-53\<close> in \<open>[0, 1)\<close>. Every value the functions can
  return is the image of some \<open>r\<close>.
\<close>

definition randint :: "int \<Rightarrow> int \<Rightarrow> nat \<Rightarrow> int" where
  "randint a b r = a + int r mod (b - a + 1)"

definition choice_index :: "nat \<Rightarrow> nat \<Rightarrow> nat" where
  \<comment> \<open>the index \<^verbatim>\<open>random.choice\<close> picks in a sequence of length n > 0\<close>
  "choice_index n r = r mod n"

definition random_unit :: "nat \<Rightarrow> rat" where
  "random_unit r = of_nat (r mod 9007199254740992) / 9007199254740992"

definition uniform :: "rat \<Rightarrow> rat \<Rightarrow> nat \<Rightarrow> rat" where
  \<comment> \<open>\<^verbatim>\<open>a + (b - a) * random()\<close>, computed exactly\<close>
  "uniform a b r = a + (b - a) * random_unit r"

section \<open>Decimal strings\<close>

definition digit_char :: "nat \<Rightarrow> char" where
  "digit_char d = char_of (48 + d)"

fun str_nat :: "nat \<Rightarrow> string" where
  \<comment> \<open>\<^verbatim>\<open>f"{i}"\<close> for an integer i \<ge> 0\<close>
  "str_nat n = (if n < 10 then [digit_char n] else str_nat (n div 10) @ [digit_char (n mod 10)])"

declare str_nat.simps [simp del]

section \<open>The mock calendar store\<close>

text \<open>
  An event is the dictionary with the six keys that \<^verbatim>\<open>_seed_events\<close> and
  \<^verbatim>\<open>simulate_new_event\<close> both write; no code removes a key, so the defaults of
  \<^verbatim>\<open>e.get('kpi_estimate', ..)\<close> are never taken. The fields \<open>id\<close> and \<open>end\<close> carry
  a suffix because the bare words are taken in Isabelle.
\<close>

record event =
  id_key :: string
  summary :: string
  start :: timestamp
  end_key :: timestamp
  updated :: timestamp
  kpi_estimate :: int

record MockCalendar =
  events :: "event list"

fun list_events_loop :: "timestamp \<Rightarrow> timestamp \<Rightarrow> event list \<Rightarrow> event list \<Rightarrow> event list" where
  \<comment> \<open>the \<^verbatim>\<open>for e in self.events\<close> loop of \<^verbatim>\<open>list_events\<close>, with its accumulator \<^verbatim>\<open>out\<close>\<close>
  "list_events_loop start_date end_date [] out = out"
| "list_events_loop start_date end_date (e # es) out =
     list_events_loop start_date end_date es
       (if start_date \<le> start e \<and> start e \<le> end_date then out @ [e] else out)"

definition list_events :: "MockCalendar \<Rightarrow> timestamp \<Rightarrow> timestamp \<Rightarrow> event list" where
  "list_events self start_date end_date = list_events_loop start_date end_date (events self) []"

fun seed_events_loop :: "timestamp \<Rightarrow> (nat \<Rightarrow> nat) \<Rightarrow> nat list \<Rightarrow> MockCalendar \<Rightarrow> MockCalendar" where
  \<comment> \<open>the \<^verbatim>\<open>for i in range(1, 11)\<close> loop; \<open>rnd i\<close> is the generator's output in round i\<close>
  "seed_events_loop now rnd [] self = self"
| "seed_events_loop now rnd (i # is) self =
     (let start = replace_hour (now + timedelta (int i - 1) 0 0) 9;
          end = start + timedelta 0 1 0
      in seed_events_loop now rnd is
           (self\<lparr>events := events self @
              [\<lparr>id_key = ''evt-'' @ str_nat i,
                summary = ''Mock Event '' @ str_nat i,
                start = start,
                end_key = end,
                updated = start - timedelta 0 1 0,
                kpi_estimate = randint 10 200 (rnd i)\<rparr>]\<rparr>))"

definition seed_events :: "timestamp \<Rightarrow> (nat \<Rightarrow> nat) \<Rightarrow> MockCalendar \<Rightarrow> MockCalendar" where
  "seed_events now rnd self = seed_events_loop now rnd [1..<11] self"

definition MockCalendar_init :: "timestamp \<Rightarrow> (nat \<Rightarrow> nat) \<Rightarrow> MockCalendar" where
  \<comment> \<open>\<^verbatim>\<open>__init__\<close>: \<^verbatim>\<open>self.events = []\<close>, then \<^verbatim>\<open>self._seed_events()\<close>\<close>
  "MockCalendar_init now rnd = seed_events now rnd \<lparr>events = []\<rparr>"

definition simulate_new_event :: "timestamp \<Rightarrow> nat \<Rightarrow> nat \<Rightarrow> MockCalendar \<Rightarrow> event \<times> MockCalendar" where
  \<comment> \<open>\<open>r_days\<close> and \<open>r_kpi\<close> feed the two \<^verbatim>\<open>randint\<close> calls, in the order of evaluation\<close>
  "simulate_new_event now r_days r_kpi self =
     (let i = length (events self) + 1;
          start = replace_hour (now + timedelta (randint 0 5 r_days) 0 0) 10;
          end = start + timedelta 0 1 0;
          evt = \<lparr>id_key = ''evt-'' @ str_nat i,
                 summary = ''Simulated Event '' @ str_nat i,
                 start = start,
                 end_key = end,
                 updated = now,
                 kpi_estimate = randint 5 300 r_kpi\<rparr>
      in (evt, self\<lparr>events := events self @ [evt]\<rparr>))"

definition simulate_update_event :: "timestamp \<Rightarrow> nat \<Rightarrow> nat \<Rightarrow> MockCalendar \<Rightarrow> event option \<times> MockCalendar" where
  \<comment> \<open>the dictionary is mutated in place: the event returned is the one now in the list\<close>
  "simulate_update_event now r_choice r_bump self =
     (if events self = [] then (None, self)
      else
        let k = choice_index (length (events self)) r_choice;
            e = events self ! k;
            e = e\<lparr>updated := now\<rparr>;
            e = e\<lparr>kpi_estimate := kpi_estimate e + randint 1 50 r_bump\<rparr>
        in (Some e, self\<lparr>events := (events self)[k := e]\<rparr>))"

section \<open>Console output\<close>

text \<open>
  Standard output is the list of what was printed, oldest first. A literal
  \<^verbatim>\<open>print\<close> is a \<open>Text\<close>; a formatted line is a constructor holding the values
  that its f-string interpolates, in the order they appear. How dates and floats are
  rendered as text (\<^verbatim>\<open>strftime\<close>, \<^verbatim>\<open>:.1f\<close>) is not modelled, and an \<open>EventLine\<close> holds
  the start as it is stored, before \<^verbatim>\<open>format_event\<close> converts it for display.
\<close>

datatype console_line =
    Text string
  | Prompt string  \<comment> \<open>the prompt \<^verbatim>\<open>input\<close> writes\<close>
  | EventLine string timestamp int  \<comment> \<open>\<^verbatim>\<open>format_event\<close>: summary, start, KPI estimate\<close>
  | DigestHeader timestamp  \<comment> \<open>\<^verbatim>\<open>DAILY DIGEST\<close>, with now\<close>
  | AlertHeader string timestamp  \<comment> \<open>\<^verbatim>\<open>REAL-TIME ALERT\<close>, with the action and now\<close>
  | TodayHeader int  \<comment> \<open>\<^verbatim>\<open>Events for today\<close>, with \<^verbatim>\<open>start.date()\<close>\<close>
  | WeekHeader int int  \<comment> \<open>\<^verbatim>\<open>Events for next 7 days\<close>, with both dates\<close>
  | KpiEvents nat  \<comment> \<open>\<^verbatim>\<open>Events:\<close> with \<^verbatim>\<open>len(events)\<close>\<close>
  | KpiTotal int  \<comment> \<open>\<^verbatim>\<open>Total KPI est:\<close>\<close>
  | KpiAverage rat  \<comment> \<open>\<^verbatim>\<open>Average KPI est:\<close>, the quotient kept exact\<close>
  | DemoStart rat  \<comment> \<open>\<^verbatim>\<open>Starting demo run\<close>, with the duration\<close>

record world =
  cal :: MockCalendar  \<comment> \<open>the module's global store\<close>
  stdout :: "console_line list"

definition print :: "console_line \<Rightarrow> world \<Rightarrow> world" where
  "print l w = w\<lparr>stdout := stdout w @ [l]\<rparr>"

definition format_event :: "event \<Rightarrow> console_line" where
  "format_event e = EventLine (summary e) (start e) (kpi_estimate e)"

section \<open>Bot logic\<close>

definition daily_digest :: "timestamp \<Rightarrow> world \<Rightarrow> world" where
  "daily_digest now w =
     (let start = replace_hour now 0;
          end = start + timedelta 1 0 (- 1);
          events = list_events (cal w) start end;
          w = print (Text (CHR 0x0A # replicate 40 CHR ''='')) w;
          w = print (DigestHeader now) w;
          w = (if events \<noteq> [] then fold (\<lambda>e. print (format_event e)) events w
               else print (Text ''No events scheduled for today.'') w)
      in print (Text (replicate 40 CHR ''='' @ [CHR 0x0A])) w)"

definition realtime_alert :: "event \<Rightarrow> string \<Rightarrow> timestamp \<Rightarrow> world \<Rightarrow> world" where
  "realtime_alert evt action now w =
     (let w = print (Text (CHR 0x0A # replicate 10 CHR ''!'')) w;
          w = print (AlertHeader action now) w;
          w = print (format_event evt) w
      in print (Text (replicate 10 CHR ''!'' @ [CHR 0x0A])) w)"

subsection \<open>Demo mode\<close>

text \<open>
  The demo reads two clocks: \<^verbatim>\<open>time.time()\<close>, a number of seconds \<open>t\<close>, and
  \<^verbatim>\<open>datetime.now\<close>, the local wall-clock reading \<open>wall t\<close> at that instant (the
  conversion belongs to the time zone database, so \<open>wall\<close> is a parameter). The clock
  advances in \<^verbatim>\<open>time.sleep\<close> only, by the delay asked for. A \<open>draw\<close> holds the raw
  outputs the generator gives in one round of the loop.
\<close>

record draw =
  r_sleep :: nat  \<comment> \<open>for \<^verbatim>\<open>random.uniform(2, 6)\<close>\<close>
  r_coin :: nat  \<comment> \<open>for \<^verbatim>\<open>random.random()\<close>\<close>
  r_first :: nat  \<comment> \<open>for the first draw of the store operation\<close>
  r_second :: nat  \<comment> \<open>for its second draw\<close>

definition demo_iteration :: "(rat \<Rightarrow> timestamp) \<Rightarrow> draw \<Rightarrow> rat \<times> world \<Rightarrow> rat \<times> world" where
  \<comment> \<open>the loop body; the float \<^verbatim>\<open>0.6\<close> is the double \<open>5404319552844595 / 2^53\<close>\<close>
  "demo_iteration wall d tw =
     (let t = fst tw + uniform 2 6 (r_sleep d);
          w = snd tw
      in if random_unit (r_coin d) < 5404319552844595 / 9007199254740992
         then (case simulate_new_event (wall t) (r_first d) (r_second d) (cal w) of
                 (evt, c) \<Rightarrow> (t, realtime_alert evt ''created'' (wall t) (w\<lparr>cal := c\<rparr>)))
         else (case simulate_update_event (wall t) (r_first d) (r_second d) (cal w) of
                 (None, c) \<Rightarrow> (t, w\<lparr>cal := c\<rparr>)
               | (Some evt, c) \<Rightarrow> (t, realtime_alert evt ''updated'' (wall t) (w\<lparr>cal := c\<rparr>))))"

partial_function (option) demo_loop ::
  "(rat \<Rightarrow> timestamp) \<Rightarrow> rat \<Rightarrow> rat \<Rightarrow> draw stream \<Rightarrow> rat \<times> world \<Rightarrow> (rat \<times> world) option" where
  \<comment> \<open>\<^verbatim>\<open>while time.time() - start < duration\<close>; the result is None when the loop never ends\<close>
  "demo_loop wall t_start duration ds tw =
     (if fst tw - t_start < duration
      then demo_loop wall t_start duration (stl ds) (demo_iteration wall (shd ds) tw)
      else Some tw)"

declare demo_loop.simps [code]

definition run_demo :: "(rat \<Rightarrow> timestamp) \<Rightarrow> rat \<Rightarrow> draw stream \<Rightarrow> rat \<times> world \<Rightarrow> (rat \<times> world) option" where
  "run_demo wall duration ds tw =
     (let t = fst tw;
          w = print (DemoStart duration) (snd tw);
          w = daily_digest (wall t) w;
          t_start = t
      in case demo_loop wall t_start duration ds (t, w) of
           None \<Rightarrow> None
         | Some (t', w') \<Rightarrow> Some (t', print (Text ''Demo finished. Exiting.'') w'))"

subsection \<open>The interactive console\<close>

text \<open>
  A line of input is a string of code points below 256, one per character. There the
  white space that \<^verbatim>\<open>str.strip\<close> removes is the code points 9 to 13, 28 to 32, 133
  (U+0085) and 160 (U+00A0), and \<^verbatim>\<open>str.lower\<close> adds 32 to the letters 65 to 90 and
  to the letters 192 to 222 other than 215, leaving every other code point as it is.
\<close>

definition isspace :: "char \<Rightarrow> bool" where
  "isspace c = (let n = (of_char c :: nat)
                in (9 \<le> n \<and> n \<le> 13) \<or> (28 \<le> n \<and> n \<le> 32) \<or> n = 133 \<or> n = 160)"

definition strip :: "string \<Rightarrow> string" where
  "strip s = rev (dropWhile isspace (rev (dropWhile isspace s)))"

definition lower :: "string \<Rightarrow> string" where
  "lower s = map (\<lambda>c. let n = (of_char c :: nat)
                     in if (65 \<le> n \<and> n \<le> 90) \<or> (192 \<le> n \<and> n \<le> 222 \<and> n \<noteq> 215)
                        then char_of (n + 32) else c) s"

datatype signal = Continue | Break

definition console_command :: "timestamp \<Rightarrow> string \<Rightarrow> world \<Rightarrow> signal \<times> world" where
  \<comment> \<open>one round of the \<^verbatim>\<open>while True\<close> loop, once \<^verbatim>\<open>input\<close> has returned \<open>raw\<close>\<close>
  "console_command now raw w =
     (let cmd = lower (strip raw)
      in if cmd = [] then (Continue, w)
         else if cmd = ''exit'' \<or> cmd = ''quit'' then (Break, print (Text ''Goodbye.'') w)
         else if cmd = ''help'' then (Continue, print (Text ''Commands: today, week, kpi, help, exit'') w)
         else if cmd = ''today'' then
           (let start = replace_hour now 0;
                end = start + timedelta 1 0 (- 1);
                events = list_events (cal w) start end;
                w = print (TodayHeader (date start)) w
            in (Continue, fold (\<lambda>e. print (format_event e)) events w))
         else if cmd = ''week'' then
           (let start = now;
                end = now + timedelta 7 0 0;
                events = list_events (cal w) start end;
                w = print (WeekHeader (date start) (date end)) w
            in (Continue, fold (\<lambda>e. print (format_event e)) events w))
         else if cmd = ''kpi'' then
           (let end = now + timedelta 7 0 0;
                events = list_events (cal w) now end;
                total_kpi = sum_list (map kpi_estimate events);
                avg_kpi = (if events \<noteq> [] then of_int total_kpi / of_nat (length events) else 0);
                w = print (Text ''KPI Summary (next 7 days):'') w;
                w = print (KpiEvents (length events)) w;
                w = print (KpiTotal total_kpi) w
            in (Continue, print (KpiAverage avg_kpi) w))
         else (Continue, print (Text (''Unknown command. Type '' @ [CHR 0x22] @ ''help'' @ [CHR 0x22] @ ''.'')) w))"

fun console_loop :: "(timestamp \<times> string option) list \<Rightarrow> world \<Rightarrow> world" where
  \<comment> \<open>each input comes with the clock reading of its round; None is \<^verbatim>\<open>KeyboardInterrupt\<close>,
      and the end of the list is \<^verbatim>\<open>EOFError\<close>\<close>
  "console_loop [] w = print (Text (CHR 0x0A # ''Exiting.'')) (print (Prompt ''> '') w)"
| "console_loop ((now, None) # rest) w = print (Text (CHR 0x0A # ''Exiting.'')) (print (Prompt ''> '') w)"
| "console_loop ((now, Some raw) # rest) w =
     (case console_command now raw (print (Prompt ''> '') w) of
        (Continue, w') \<Rightarrow> console_loop rest w'
      | (Break, w') \<Rightarrow> w')"

definition interactive_console :: "(string \<Rightarrow> string option) \<Rightarrow> (timestamp \<times> string option) list \<Rightarrow> world \<Rightarrow> world" where
  \<comment> \<open>\<open>CONFIG\<close> is the dictionary loaded from \<^verbatim>\<open>config.json\<close>\<close>
  "interactive_console CONFIG inputs w =
     (let w = print (Text (case CONFIG ''pinned_header'' of None \<Rightarrow> ''Messaging Automation Bot'' | Some h \<Rightarrow> h)) w;
          w = print (Text (''Type '' @ [CHR 0x22] @ ''help'' @ [CHR 0x22] @ '' for commands.'')) w
      in console_loop inputs w)"

section \<open>Stores the program can reach\<close>

text \<open>
  \<^verbatim>\<open>self.events\<close> is written by the constructor and by the two simulation methods only;
  the demo loop and the alert thread of interactive mode call these two methods and nothing
  else on the store. The scheduler and the threads themselves are not modelled.
\<close>

inductive reachable :: "MockCalendar \<Rightarrow> bool" where
  seeded: "reachable (MockCalendar_init now rnd)"
| created: "reachable self \<Longrightarrow> reachable (snd (simulate_new_event now r_days r_kpi self))"
| updated: "reachable self \<Longrightarrow> reachable (snd (simulate_update_event now r_choice r_bump self))"

section \<open>Observations of standard output\<close>

definition printed :: "(world \<Rightarrow> world) \<Rightarrow> world \<Rightarrow> console_line list" where
  \<comment> \<open>what a step adds to standard output\<close>
  "printed f w = drop (length (stdout w)) (stdout (f w))"

fun demo_rounds :: "nat \<Rightarrow> (rat \<Rightarrow> timestamp) \<Rightarrow> draw stream \<Rightarrow> rat \<times> world \<Rightarrow> rat \<times> world" where
  \<comment> \<open>the state after k rounds of the body of the demo loop\<close>
  "demo_rounds 0 wall ds tw = tw"
| "demo_rounds (Suc k) wall ds tw = demo_rounds k wall (stl ds) (demo_iteration wall (shd ds) tw)"

fun is_digest_header :: "console_line \<Rightarrow> bool" where
  "is_digest_header (DigestHeader now) = True"
| "is_digest_header l = False"

section \<open>Range queries\<close>

lemma list_events_loop_filter:
  "list_events_loop a b es out = out @ filter (\<lambda>e. a \<le> start e \<and> start e \<le> b) es"
  by (induction es arbitrary: out) simp_all

text \<open>
  C1. For all timestamps a and b and every store, \<open>list_events\<close> returns exactly the stored
  events whose start s satisfies a \<le> s \<le> b, in store order; when a > b the result is empty.
\<close>

theorem list_events_exact:
  "list_events self a b = filter (\<lambda>e. a \<le> start e \<and> start e \<le> b) (events self)
   \<and> (b < a \<longrightarrow> list_events self a b = [])"
  by (auto simp: list_events_def list_events_loop_filter filter_empty_conv)

theorem list_events_exact_witness:
  "list_events \<lparr>events = [\<lparr>id_key = ''evt-1'', summary = ''Mock Event 1'', start = 7,
       end_key = 8, updated = 6, kpi_estimate = 10\<rparr>]\<rparr> 5 9
     = [\<lparr>id_key = ''evt-1'', summary = ''Mock Event 1'', start = 7,
       end_key = 8, updated = 6, kpi_estimate = 10\<rparr>]
   \<and> (5::int) < 9
   \<and> list_events \<lparr>events = [\<lparr>id_key = ''evt-1'', summary = ''Mock Event 1'', start = 7,
       end_key = 8, updated = 6, kpi_estimate = 10\<rparr>]\<rparr> 9 5 = []"
  using list_events_exact [of "\<lparr>events = [\<lparr>id_key = ''evt-1'', summary = ''Mock Event 1'', start = 7,
       end_key = 8, updated = 6, kpi_estimate = 10\<rparr>]\<rparr>" 5 9]
    list_events_exact [of "\<lparr>events = [\<lparr>id_key = ''evt-1'', summary = ''Mock Event 1'', start = 7,
       end_key = 8, updated = 6, kpi_estimate = 10\<rparr>]\<rparr>" 9 5]
  by simp

section \<open>Dates and decimal strings\<close>

lemma replace_hour_shift: "replace_hour (t + timedelta d 0 0) h = replace_hour t h + timedelta d 0 0"
  by (simp add: replace_hour_def timedelta_def)

lemma date_shift: "date (t + timedelta d 0 0) = date t + d"
  by (simp add: date_def timedelta_def)

lemma date_replace_hour: "0 \<le> h \<Longrightarrow> h < 24 \<Longrightarrow> date (replace_hour t h) = date t"
proof -
  assume h: "0 \<le> h" "h < 24"
  have "t - t mod 86400000000 = (t div 86400000000) * 86400000000"
    by (simp add: minus_mod_eq_div_mult)
  then have "replace_hour t h = h * 3600000000 + (t div 86400000000) * 86400000000"
    by (simp add: replace_hour_def)
  moreover have "(h * 3600000000 + (t div 86400000000) * 86400000000) div 86400000000
      = (h * 3600000000) div 86400000000 + t div 86400000000"
    by simp
  moreover have "(h * 3600000000) div 86400000000 = 0"
    using h by (simp add: div_pos_pos_trivial)
  ultimately show ?thesis by (simp add: date_def)
qed

lemma seed_events_loop_events:
  "events (seed_events_loop now rnd ns self) = events self @
     map (\<lambda>i. \<lparr>id_key = ''evt-'' @ str_nat i,
                summary = ''Mock Event '' @ str_nat i,
                start = replace_hour (now + timedelta (int i - 1) 0 0) 9,
                end_key = replace_hour (now + timedelta (int i - 1) 0 0) 9 + timedelta 0 1 0,
                updated = replace_hour (now + timedelta (int i - 1) 0 0) 9 - timedelta 0 1 0,
                kpi_estimate = randint 10 200 (rnd i)\<rparr>) ns"
  by (induction ns arbitrary: self) (simp_all add: Let_def)

lemma length_str_nat: "0 < length (str_nat n)"
  by (subst str_nat.simps) simp

lemma digit_char_inj: "a < 10 \<Longrightarrow> b < 10 \<Longrightarrow> digit_char a = digit_char b \<Longrightarrow> a = b"
proof -
  assume a: "a < 10" and b: "b < 10" and e: "digit_char a = digit_char b"
  from e have "(of_char (char_of (48 + a) :: char) :: nat) = of_char (char_of (48 + b) :: char)"
    by (simp add: digit_char_def)
  with a b show ?thesis by simp
qed

lemma str_nat_inj: "str_nat m = str_nat n \<Longrightarrow> m = n"
proof (induction m arbitrary: n rule: str_nat.induct)
  case (1 m)
  show ?case
  proof (cases "m < 10")
    case True
    then have sm: "str_nat m = [digit_char m]" by (subst str_nat.simps) simp
    show ?thesis
    proof (cases "n < 10")
      case True
      then have "str_nat n = [digit_char n]" by (subst str_nat.simps) simp
      with sm "1.prems" have "digit_char m = digit_char n" by simp
      with \<open>m < 10\<close> True show ?thesis by (rule digit_char_inj)
    next
      case False
      then have "str_nat n = str_nat (n div 10) @ [digit_char (n mod 10)]"
        by (subst str_nat.simps) simp
      with sm "1.prems" have "length (str_nat (n div 10)) = 0"
        by (metis length_append_singleton length_Cons list.size(3) nat.inject)
      with length_str_nat [of "n div 10"] show ?thesis by simp
    qed
  next
    case False
    then have sm: "str_nat m = str_nat (m div 10) @ [digit_char (m mod 10)]"
      by (subst str_nat.simps) simp
    show ?thesis
    proof (cases "n < 10")
      case True
      then have "str_nat n = [digit_char n]" by (subst str_nat.simps) simp
      with sm "1.prems" have "length (str_nat (m div 10)) = 0"
        by (metis length_append_singleton length_Cons list.size(3) nat.inject)
      with length_str_nat [of "m div 10"] show ?thesis by simp
    next
      case n: False
      then have "str_nat n = str_nat (n div 10) @ [digit_char (n mod 10)]"
        by (subst str_nat.simps) simp
      with sm "1.prems" have e1: "str_nat (m div 10) = str_nat (n div 10)"
        and e2: "digit_char (m mod 10) = digit_char (n mod 10)" by simp_all
      from "1.IH" [OF False e1] have d: "m div 10 = n div 10" .
      have "m mod 10 = n mod 10" using e2 by (intro digit_char_inj) simp_all
      with d show ?thesis by (metis div_mult_mod_eq)
    qed
  qed
qed

section \<open>Seeding\<close>

lemma events_MockCalendar_init:
  "events (MockCalendar_init now rnd) =
     map (\<lambda>i. \<lparr>id_key = ''evt-'' @ str_nat i,
                summary = ''Mock Event '' @ str_nat i,
                start = replace_hour (now + timedelta (int i - 1) 0 0) 9,
                end_key = replace_hour (now + timedelta (int i - 1) 0 0) 9 + timedelta 0 1 0,
                updated = replace_hour (now + timedelta (int i - 1) 0 0) 9 - timedelta 0 1 0,
                kpi_estimate = randint 10 200 (rnd i)\<rparr>) [1..<11]"
  by (simp add: MockCalendar_init_def seed_events_def seed_events_loop_events)

lemma seeded_nth:
  assumes "i < 10"
  shows "events (MockCalendar_init now rnd) ! i =
     \<lparr>id_key = ''evt-'' @ str_nat (Suc i),
      summary = ''Mock Event '' @ str_nat (Suc i),
      start = replace_hour now 9 + timedelta (int i) 0 0,
      end_key = replace_hour now 9 + timedelta (int i) 0 0 + timedelta 0 1 0,
      updated = replace_hour now 9 + timedelta (int i) 0 0 - timedelta 0 1 0,
      kpi_estimate = randint 10 200 (rnd (Suc i))\<rparr>"
proof -
  have "[1..<11] ! i = Suc i" using assms by (simp add: nth_upt)
  then show ?thesis
    using assms by (simp add: events_MockCalendar_init replace_hour_shift del: upt_Suc upt.simps)
qed

text \<open>
  C4. Seeding at construction produces exactly 10 events, one per day for the 10 days from
  today to 9 days ahead (the i-th at 09:00 of day i), each with start < end and
  end - start equal to one hour.
\<close>

theorem seeding_ten_days:
  "length (events (MockCalendar_init now rnd)) = 10
   \<and> (\<forall>i<10. date (start (events (MockCalendar_init now rnd) ! i)) = date now + int i
          \<and> start (events (MockCalendar_init now rnd) ! i) = replace_hour now 9 + timedelta (int i) 0 0
          \<and> start (events (MockCalendar_init now rnd) ! i) < end_key (events (MockCalendar_init now rnd) ! i)
          \<and> end_key (events (MockCalendar_init now rnd) ! i) - start (events (MockCalendar_init now rnd) ! i)
              = timedelta 0 1 0)"
proof (intro conjI allI impI)
  show "length (events (MockCalendar_init now rnd)) = 10"
    by (simp add: events_MockCalendar_init del: upt_Suc upt.simps)
next
  fix i :: nat assume i: "i < 10"
  show "date (start (events (MockCalendar_init now rnd) ! i)) = date now + int i"
    using date_shift [of "replace_hour now 9" "int i"] date_replace_hour [of 9 now]
    by (simp add: seeded_nth [OF i])
  show "start (events (MockCalendar_init now rnd) ! i) = replace_hour now 9 + timedelta (int i) 0 0"
    by (simp add: seeded_nth [OF i])
  show "start (events (MockCalendar_init now rnd) ! i) < end_key (events (MockCalendar_init now rnd) ! i)"
    by (simp add: seeded_nth [OF i] timedelta_def)
  show "end_key (events (MockCalendar_init now rnd) ! i) - start (events (MockCalendar_init now rnd) ! i)
          = timedelta 0 1 0"
    by (simp add: seeded_nth [OF i])
qed

theorem seeding_ten_days_witness:
  "length (events (MockCalendar_init 63871252215250000 (\<lambda>i. 7 * i))) = 10
   \<and> (3::nat) < 10
   \<and> date (start (events (MockCalendar_init 63871252215250000 (\<lambda>i. 7 * i)) ! 3)) = 739253
   \<and> start (events (MockCalendar_init 63871252215250000 (\<lambda>i. 7 * i)) ! 3) = 63871491600000000
   \<and> end_key (events (MockCalendar_init 63871252215250000 (\<lambda>i. 7 * i)) ! 3) = 63871495200000000"
  using seeding_ten_days [of 63871252215250000 "\<lambda>i. 7 * i", THEN conjunct1]
    seeding_ten_days [of 63871252215250000 "\<lambda>i. 7 * i", THEN conjunct2, rule_format, of 3]
  by (simp add: date_def replace_hour_def timedelta_def)

section \<open>Simulated updates\<close>

lemma randint_bounds: "a \<le> b \<Longrightarrow> a \<le> randint a b r \<and> randint a b r \<le> b"
proof -
  assume "a \<le> b"
  then have pos: "0 < b - a + 1" by simp
  have "0 \<le> int r mod (b - a + 1)" using pos by simp
  moreover have "int r mod (b - a + 1) < b - a + 1" using pos by (rule pos_mod_bound)
  ultimately show ?thesis unfolding randint_def by linarith
qed

lemma choice_index_less: "0 < n \<Longrightarrow> choice_index n r < n"
  by (simp add: choice_index_def)

text \<open>
  C3. On an empty store \<open>simulate_update_event\<close> returns None and the store is unchanged. On
  a non-empty store it returns one of the store's events, the one at some position k: its
  \<open>updated\<close> is the call's now, its \<open>kpi_estimate\<close> is strictly greater than before, and
  every other event of the store is unchanged.
\<close>

theorem simulate_update_event_result:
  "(events self = [] \<longrightarrow> simulate_update_event now r_choice r_bump self = (None, self))
   \<and> (events self \<noteq> [] \<longrightarrow>
        (\<exists>k e. k < length (events self)
           \<and> simulate_update_event now r_choice r_bump self
               = (Some e, self\<lparr>events := (events self)[k := e]\<rparr>)
           \<and> e \<in> set (events (snd (simulate_update_event now r_choice r_bump self)))
           \<and> updated e = now
           \<and> kpi_estimate (events self ! k) < kpi_estimate e
           \<and> (\<forall>j < length (events self). j \<noteq> k \<longrightarrow>
                 events (snd (simulate_update_event now r_choice r_bump self)) ! j = events self ! j)))"
proof (intro conjI impI)
  assume "events self = []"
  then show "simulate_update_event now r_choice r_bump self = (None, self)"
    by (simp add: simulate_update_event_def)
next
  assume ne: "events self \<noteq> []"
  define k where "k = choice_index (length (events self)) r_choice"
  define e where "e = (events self ! k)\<lparr>updated := now,
    kpi_estimate := kpi_estimate (events self ! k) + randint 1 50 r_bump\<rparr>"
  have k: "k < length (events self)"
    using ne by (simp add: k_def choice_index_less)
  have res: "simulate_update_event now r_choice r_bump self
      = (Some e, self\<lparr>events := (events self)[k := e]\<rparr>)"
    using ne by (simp add: simulate_update_event_def Let_def k_def e_def)
  have "e \<in> set ((events self)[k := e])"
    using k by (simp add: set_update_memI)
  moreover have "updated e = now" by (simp add: e_def)
  moreover have "kpi_estimate (events self ! k) < kpi_estimate e"
    using randint_bounds [of 1 50 r_bump] by (simp add: e_def)
  ultimately show "\<exists>k e. k < length (events self)
           \<and> simulate_update_event now r_choice r_bump self
               = (Some e, self\<lparr>events := (events self)[k := e]\<rparr>)
           \<and> e \<in> set (events (snd (simulate_update_event now r_choice r_bump self)))
           \<and> updated e = now
           \<and> kpi_estimate (events self ! k) < kpi_estimate e
           \<and> (\<forall>j < length (events self). j \<noteq> k \<longrightarrow>
                 events (snd (simulate_update_event now r_choice r_bump self)) ! j = events self ! j)"
    using k res by (intro exI [of _ k] exI [of _ e]) simp
qed

theorem simulate_update_event_result_witness:
  "simulate_update_event 5 3 4 \<lparr>events = []\<rparr> = (None, \<lparr>events = []\<rparr>)
   \<and> events (MockCalendar_init 0 (\<lambda>i. i)) \<noteq> []
   \<and> (\<exists>k e. k < length (events (MockCalendar_init 0 (\<lambda>i. i)))
         \<and> simulate_update_event 5 3 4 (MockCalendar_init 0 (\<lambda>i. i))
            = (Some e, (MockCalendar_init 0 (\<lambda>i. i))\<lparr>events := (events (MockCalendar_init 0 (\<lambda>i. i)))[k := e]\<rparr>)
         \<and> updated e = 5
         \<and> kpi_estimate (events (MockCalendar_init 0 (\<lambda>i. i)) ! k) < kpi_estimate e)"
proof -
  have ne: "events (MockCalendar_init 0 (\<lambda>i. i)) \<noteq> []"
    using seeded_nth [of 0 0 "\<lambda>i. i"] by (auto simp: events_MockCalendar_init simp del: upt_Suc upt.simps)
  have e: "events \<lparr>events = []\<rparr> = []" by simp
  show ?thesis
    using ne simulate_update_event_result [of "\<lparr>events = []\<rparr>" 5 3 4, THEN conjunct1, rule_format, OF e]
      simulate_update_event_result [of "MockCalendar_init 0 (\<lambda>i. i)" 5 3 4, THEN conjunct2, rule_format, OF ne]
    by blast
qed

text \<open>
  C2, as the claim states it, fails: a seeded event is given \<open>updated\<close> = start minus one
  hour, which is 08:00 of a day up to 9 days ahead; a simulated update one minute after
  seeding overwrites it with the current time, which is earlier.
\<close>

theorem updated_not_monotone:
  "updated (events (snd (simulate_update_event (63871252215250000 + 60000000) 9 0
       (MockCalendar_init 63871252215250000 id))) ! 9)
   < updated (events (MockCalendar_init 63871252215250000 id) ! 9)"
  by (simp add: simulate_update_event_def events_MockCalendar_init choice_index_def Let_def
      replace_hour_def timedelta_def)

lemma seeded_updated:
  assumes "i < 10"
  shows "updated (events (MockCalendar_init now rnd) ! i) = replace_hour now 8 + timedelta (int i) 0 0"
  using assms by (simp add: seeded_nth replace_hour_def timedelta_def)

lemma seeded_updated_ahead:
  assumes "i < 10" and "0 < i"
  shows "now < updated (events (MockCalendar_init now rnd) ! i)"
proof -
  have "now mod 86400000000 < 86400000000" by (rule pos_mod_bound) simp
  moreover have "1 \<le> int i" using assms(2) by simp
  ultimately have "now < now - now mod 86400000000 + 8 * 3600000000 + int i * 86400000000"
    by linarith
  then show ?thesis
    by (simp add: seeded_updated [OF assms(1)] replace_hour_def timedelta_def)
qed

lemma update_length:
  "length (events (snd (simulate_update_event now r_choice r_bump self))) = length (events self)"
  by (simp add: simulate_update_event_def Let_def)

lemma update_chosen:
  "events self \<noteq> [] \<Longrightarrow>
     updated (events (snd (simulate_update_event now r_choice r_bump self))
        ! choice_index (length (events self)) r_choice) = now"
  by (simp add: simulate_update_event_def Let_def choice_index_less)

lemma update_others:
  "j \<noteq> choice_index (length (events self)) r_choice \<Longrightarrow>
     events (snd (simulate_update_event now r_choice r_bump self)) ! j = events self ! j"
  by (simp add: simulate_update_event_def Let_def)

text \<open>
  C2, amended. A simulated update on a non-empty store writes the call's now into the
  \<open>updated\<close> of the event it chooses and leaves the \<open>updated\<close> of every other event as
  it was, in a store of the same length; so the \<open>updated\<close> of an event whose previous
  value is not later than now does not decrease. An event appended by
  \<open>simulate_new_event\<close> starts with \<open>updated\<close> = now. Seeding gives the i-th event
  (i = 0, .., 9) \<open>updated\<close> = 08:00 of day i after today, which for i \<ge> 1 is later than
  the time of seeding.
\<close>

theorem update_stamps_chosen_event:
  "(events self \<noteq> [] \<longrightarrow>
      updated (events (snd (simulate_update_event now r_choice r_bump self))
        ! choice_index (length (events self)) r_choice) = now)
   \<and> length (events (snd (simulate_update_event now r_choice r_bump self))) = length (events self)
   \<and> (\<forall>j < length (events self). j \<noteq> choice_index (length (events self)) r_choice \<longrightarrow>
         updated (events (snd (simulate_update_event now r_choice r_bump self)) ! j)
           = updated (events self ! j))
   \<and> (\<forall>j < length (events self). updated (events self ! j) \<le> now \<longrightarrow>
         updated (events self ! j)
           \<le> updated (events (snd (simulate_update_event now r_choice r_bump self)) ! j))
   \<and> updated (fst (simulate_new_event now r_days r_kpi self)) = now
   \<and> (\<forall>i < 10. updated (events (MockCalendar_init now rnd) ! i)
         = replace_hour now 8 + timedelta (int i) 0 0)
   \<and> (\<forall>i < 10. 0 < i \<longrightarrow> now < updated (events (MockCalendar_init now rnd) ! i))"
proof (intro conjI allI impI)
  assume "events self \<noteq> []"
  then show "updated (events (snd (simulate_update_event now r_choice r_bump self))
        ! choice_index (length (events self)) r_choice) = now"
    by (rule update_chosen)
next
  show "length (events (snd (simulate_update_event now r_choice r_bump self))) = length (events self)"
    by (rule update_length)
next
  fix j assume "j \<noteq> choice_index (length (events self)) r_choice"
  then show "updated (events (snd (simulate_update_event now r_choice r_bump self)) ! j)
           = updated (events self ! j)"
    by (simp add: update_others)
next
  fix j assume j: "j < length (events self)" and le: "updated (events self ! j) \<le> now"
  show "updated (events self ! j)
           \<le> updated (events (snd (simulate_update_event now r_choice r_bump self)) ! j)"
  proof (cases "j = choice_index (length (events self)) r_choice")
    case True
    from j have "events self \<noteq> []" by auto
    then show ?thesis using le True update_chosen [of self now r_choice r_bump] by simp
  next
    case False
    then show ?thesis by (simp add: update_others)
  qed
next
  show "updated (fst (simulate_new_event now r_days r_kpi self)) = now"
    by (simp add: simulate_new_event_def Let_def)
next
  fix i :: nat assume "i < 10"
  then show "updated (events (MockCalendar_init now rnd) ! i)
         = replace_hour now 8 + timedelta (int i) 0 0"
    by (rule seeded_updated)
next
  fix i :: nat assume "i < 10" and "0 < i"
  then show "now < updated (events (MockCalendar_init now rnd) ! i)"
    by (rule seeded_updated_ahead)
qed

theorem update_stamps_chosen_event_witness:
  "events (MockCalendar_init 63871252215250000 id) \<noteq> []
   \<and> choice_index (length (events (MockCalendar_init 63871252215250000 id))) 13 = 3
   \<and> updated (events (snd (simulate_update_event 63871252275250000 13 7
        (MockCalendar_init 63871252215250000 id))) ! 3) = 63871252275250000
   \<and> (0::nat) < length (events (MockCalendar_init 63871252215250000 id))
   \<and> updated (events (snd (simulate_update_event 63871252275250000 13 7
        (MockCalendar_init 63871252215250000 id))) ! 0)
       = updated (events (MockCalendar_init 63871252215250000 id) ! 0)
   \<and> updated (events (MockCalendar_init 63871252215250000 id) ! 0) \<le> 63871252275250000
   \<and> updated (events (MockCalendar_init 63871252215250000 id) ! 0)
       \<le> updated (events (snd (simulate_update_event 63871252275250000 13 7
            (MockCalendar_init 63871252215250000 id))) ! 0)
   \<and> (3::nat) < 10 \<and> (0::nat) < 3
   \<and> updated (events (MockCalendar_init 63871252215250000 id) ! 3) = 63871488000000000
   \<and> 63871252215250000 < updated (events (MockCalendar_init 63871252215250000 id) ! 3)"
proof -
  let ?S = "MockCalendar_init 63871252215250000 id"
  have len: "length (events ?S) = 10"
    by (simp add: events_MockCalendar_init del: upt_Suc upt.simps)
  then have ne: "events ?S \<noteq> []" by auto
  have c: "choice_index (length (events ?S)) 13 = 3" by (simp add: len choice_index_def)
  have l0: "(0::nat) < length (events ?S)" by (simp add: len)
  have n0: "(0::nat) \<noteq> choice_index (length (events ?S)) 13" by (simp add: c)
  have u0: "updated (events ?S ! 0) \<le> 63871252275250000"
    by (simp add: seeded_nth replace_hour_def timedelta_def)
  have i3: "(3::nat) < 10" and p3: "(0::nat) < 3" by simp_all
  note t = update_stamps_chosen_event [of ?S 63871252275250000 13 7 0 0 id]
  note s = update_stamps_chosen_event [of ?S 63871252215250000 13 7 0 0 id]
  from t have 1: "updated (events (snd (simulate_update_event 63871252275250000 13 7 ?S)) ! 3)
      = 63871252275250000" using ne c by simp
  from t [THEN conjunct2, THEN conjunct2, THEN conjunct1, rule_format, OF l0 n0]
  have 2: "updated (events (snd (simulate_update_event 63871252275250000 13 7 ?S)) ! 0)
      = updated (events ?S ! 0)" .
  from t [THEN conjunct2, THEN conjunct2, THEN conjunct2, THEN conjunct1, rule_format, OF l0 u0]
  have 3: "updated (events ?S ! 0)
      \<le> updated (events (snd (simulate_update_event 63871252275250000 13 7 ?S)) ! 0)" .
  from s [THEN conjunct2, THEN conjunct2, THEN conjunct2, THEN conjunct2, THEN conjunct2,
      THEN conjunct1, rule_format, OF i3]
  have 4: "updated (events ?S ! 3) = 63871488000000000"
    by (simp add: replace_hour_def timedelta_def)
  from s [THEN conjunct2, THEN conjunct2, THEN conjunct2, THEN conjunct2, THEN conjunct2,
      THEN conjunct2, rule_format, OF i3 p3]
  have 5: "63871252215250000 < updated (events ?S ! 3)" .
  show ?thesis using ne c 1 l0 2 u0 3 4 5 by simp
qed

section \<open>Simulated new events\<close>

lemma length_seeded: "length (events (MockCalendar_init now rnd)) = 10"
  by (simp add: events_MockCalendar_init del: upt_Suc upt.simps)

lemma reachable_ids:
  "reachable self \<Longrightarrow> i < length (events self) \<Longrightarrow>
     id_key (events self ! i) = ''evt-'' @ str_nat (Suc i)"
proof (induction arbitrary: i rule: reachable.induct)
  case (seeded now rnd)
  then have "i < 10" by (simp add: length_seeded)
  then show ?case by (simp add: seeded_nth)
next
  case (created self now r_days r_kpi)
  then show ?case
    by (cases "i < length (events self)")
       (auto simp: simulate_new_event_def Let_def nth_append less_Suc_eq)
next
  case (updated self now r_choice r_bump)
  then show ?case
    by (cases "i = choice_index (length (events self)) r_choice")
       (auto simp: simulate_update_event_def Let_def split: if_splits)
qed

lemma evt_id_fresh:
  assumes "reachable self"
  shows "''evt-'' @ str_nat (length (events self) + 1) \<notin> id_key ` set (events self)"
proof
  assume "''evt-'' @ str_nat (length (events self) + 1) \<in> id_key ` set (events self)"
  then obtain i where i: "i < length (events self)"
    and eq: "''evt-'' @ str_nat (length (events self) + 1) = id_key (events self ! i)"
    by (auto simp: in_set_conv_nth)
  from eq reachable_ids [OF assms i]
  have "str_nat (length (events self) + 1) = str_nat (Suc i)" by simp
  then have "length (events self) + 1 = Suc i" by (rule str_nat_inj)
  with i show False by simp
qed

lemma date_new_event:
  assumes "0 \<le> k"
  shows "date (replace_hour (now + timedelta k 0 0) 10) = date now + k"
  using date_replace_hour [of 10 "now + timedelta k 0 0"] date_shift [of now k] by simp

text \<open>
  C7. In every store the program can reach, \<open>simulate_new_event\<close> appends exactly one event
  (the store grows by one and no existing event changes), the id of the new event differs
  from the id of every event already stored, and its start falls on a day from today to
  5 days ahead.
\<close>

theorem simulate_new_event_appends:
  "reachable self \<Longrightarrow>
     events (snd (simulate_new_event now r_days r_kpi self))
       = events self @ [fst (simulate_new_event now r_days r_kpi self)]
     \<and> length (events (snd (simulate_new_event now r_days r_kpi self))) = length (events self) + 1
     \<and> id_key (fst (simulate_new_event now r_days r_kpi self)) \<notin> id_key ` set (events self)
     \<and> date now \<le> date (start (fst (simulate_new_event now r_days r_kpi self)))
     \<and> date (start (fst (simulate_new_event now r_days r_kpi self))) \<le> date now + 5"
proof -
  assume r: "reachable self"
  have b: "0 \<le> randint 0 5 r_days \<and> randint 0 5 r_days \<le> 5"
    by (rule randint_bounds) simp
  have d: "date (start (fst (simulate_new_event now r_days r_kpi self))) = date now + randint 0 5 r_days"
    using b by (simp add: simulate_new_event_def Let_def date_new_event)
  have i: "id_key (fst (simulate_new_event now r_days r_kpi self))
      = ''evt-'' @ str_nat (length (events self) + 1)"
    by (simp add: simulate_new_event_def Let_def)
  have a: "events (snd (simulate_new_event now r_days r_kpi self))
       = events self @ [fst (simulate_new_event now r_days r_kpi self)]"
    by (simp add: simulate_new_event_def Let_def)
  have l: "length (events (snd (simulate_new_event now r_days r_kpi self))) = length (events self) + 1"
    by (simp add: a)
  show ?thesis
    using a l b d evt_id_fresh [OF r] by (simp only: i) simp
qed

theorem simulate_new_event_appends_witness:
  "reachable (MockCalendar_init 0 (\<lambda>i. i))
   \<and> events (snd (simulate_new_event 7 3 4 (MockCalendar_init 0 (\<lambda>i. i))))
       = events (MockCalendar_init 0 (\<lambda>i. i)) @ [fst (simulate_new_event 7 3 4 (MockCalendar_init 0 (\<lambda>i. i)))]
   \<and> id_key (fst (simulate_new_event 7 3 4 (MockCalendar_init 0 (\<lambda>i. i))))
       \<notin> id_key ` set (events (MockCalendar_init 0 (\<lambda>i. i)))"
  using simulate_new_event_appends [OF reachable.seeded, of 7 3 4 0 "\<lambda>i. i"]
  by (simp add: reachable.seeded)

section \<open>Console commands and the daily digest\<close>

lemma list_events_filter:
  "list_events self a b = filter (\<lambda>e. a \<le> start e \<and> start e \<le> b) (events self)"
  by (simp add: list_events_def list_events_loop_filter)

lemma cal_print: "cal (print l w) = cal w"
  by (simp add: print_def)

lemma stdout_print: "stdout (print l w) = stdout w @ [l]"
  by (simp add: print_def)

lemma fold_print: "fold (\<lambda>e. print (f e)) es w = w\<lparr>stdout := stdout w @ map f es\<rparr>"
  by (induction es arbitrary: w) (simp_all add: print_def)

lemma printed_append: "stdout (f w) = stdout w @ ls \<Longrightarrow> printed f w = ls"
  by (simp add: printed_def)

lemma stdout_kpi:
  assumes "lower (strip raw) = ''kpi''"
  shows "stdout (snd (console_command now raw w)) = stdout w @
     [Text ''KPI Summary (next 7 days):'',
      KpiEvents (length (list_events (cal w) now (now + timedelta 7 0 0))),
      KpiTotal (sum_list (map kpi_estimate (list_events (cal w) now (now + timedelta 7 0 0)))),
      KpiAverage (if list_events (cal w) now (now + timedelta 7 0 0) = [] then 0
                  else of_int (sum_list (map kpi_estimate (list_events (cal w) now (now + timedelta 7 0 0))))
                       / of_nat (length (list_events (cal w) now (now + timedelta 7 0 0))))]"
  using assms by (simp add: console_command_def Let_def stdout_print cal_print)

lemma stdout_week:
  assumes "lower (strip raw) = ''week''"
  shows "stdout (snd (console_command now raw w)) = stdout w @
     WeekHeader (date now) (date (now + timedelta 7 0 0))
       # map format_event (list_events (cal w) now (now + timedelta 7 0 0))"
  using assms by (simp add: console_command_def Let_def stdout_print cal_print fold_print)


lemma stdout_daily_digest:
  "stdout (daily_digest now w) = stdout w @
     [Text (CHR 0x0A # replicate 40 CHR ''=''), DigestHeader now]
     @ (if list_events (cal w) (replace_hour now 0) (replace_hour now 0 + timedelta 1 0 (- 1)) \<noteq> []
        then map format_event (list_events (cal w) (replace_hour now 0) (replace_hour now 0 + timedelta 1 0 (- 1)))
        else [Text ''No events scheduled for today.''])
     @ [Text (replicate 40 CHR ''='' @ [CHR 0x0A])]"
  by (simp add: daily_digest_def Let_def stdout_print cal_print fold_print)

lemma cal_daily_digest: "cal (daily_digest now w) = cal w"
  by (simp add: daily_digest_def Let_def cal_print fold_print)

lemma cal_console_command: "cal (snd (console_command now raw w)) = cal w"
  by (simp add: console_command_def Let_def cal_print fold_print)

lemma cal_console_loop: "cal (console_loop inputs w) = cal w"
proof (induction inputs w rule: console_loop.induct)
  case (1 w)
  show ?case by (simp add: cal_print)
next
  case (2 now rest w)
  show ?case by (simp add: cal_print)
next
  case (3 now raw rest w)
  obtain s w' where r: "console_command now raw (print (Prompt ''> '') w) = (s, w')"
    by (cases "console_command now raw (print (Prompt ''> '') w)")
  have c: "cal w' = cal w"
    using cal_console_command [of now raw "print (Prompt ''> '') w"] r by (simp add: cal_print)
  show ?case
  proof (cases s)
    case Continue
    with r 3 c show ?thesis by simp
  next
    case Break
    with r c show ?thesis by simp
  qed
qed

text \<open>
  C5. The kpi command prints, for the events whose start lies in [now, now + 7 days], their
  number, the sum of their \<open>kpi_estimate\<close> and the average (the sum divided by the number);
  with no such event the average printed is 0, and nothing is divided. When the estimates
  of the events in the window are 10, 20, 30 it prints Events 3, Total 60, Average 20.
\<close>

theorem kpi_command_report:
  "lower (strip raw) = ''kpi'' \<Longrightarrow>
     printed (\<lambda>w. snd (console_command now raw w)) w =
       [Text ''KPI Summary (next 7 days):'',
        KpiEvents (length (filter (\<lambda>e. now \<le> start e \<and> start e \<le> now + timedelta 7 0 0) (events (cal w)))),
        KpiTotal (sum_list (map kpi_estimate
          (filter (\<lambda>e. now \<le> start e \<and> start e \<le> now + timedelta 7 0 0) (events (cal w))))),
        KpiAverage
          (if filter (\<lambda>e. now \<le> start e \<and> start e \<le> now + timedelta 7 0 0) (events (cal w)) = [] then 0
           else of_int (sum_list (map kpi_estimate
                  (filter (\<lambda>e. now \<le> start e \<and> start e \<le> now + timedelta 7 0 0) (events (cal w)))))
                / of_nat (length (filter (\<lambda>e. now \<le> start e \<and> start e \<le> now + timedelta 7 0 0) (events (cal w)))))]
     \<and> (map kpi_estimate (filter (\<lambda>e. now \<le> start e \<and> start e \<le> now + timedelta 7 0 0) (events (cal w)))
            = [10, 20, 30] \<longrightarrow>
          printed (\<lambda>w. snd (console_command now raw w)) w =
            [Text ''KPI Summary (next 7 days):'', KpiEvents 3, KpiTotal 60, KpiAverage 20])"
proof -
  assume k: "lower (strip raw) = ''kpi''"
  define L where "L = filter (\<lambda>e. now \<le> start e \<and> start e \<le> now + timedelta 7 0 0) (events (cal w))"
  have p: "printed (\<lambda>w. snd (console_command now raw w)) w =
       [Text ''KPI Summary (next 7 days):'', KpiEvents (length L),
        KpiTotal (sum_list (map kpi_estimate L)),
        KpiAverage (if L = [] then 0 else of_int (sum_list (map kpi_estimate L)) / of_nat (length L))]"
    by (rule printed_append) (simp add: stdout_kpi [OF k] list_events_filter L_def)
  have "map kpi_estimate L = [10, 20, 30] \<Longrightarrow>
      printed (\<lambda>w. snd (console_command now raw w)) w =
        [Text ''KPI Summary (next 7 days):'', KpiEvents 3, KpiTotal 60, KpiAverage 20]"
  proof -
    assume m: "map kpi_estimate L = [10, 20, 30]"
    then have "length (map kpi_estimate L) = 3" by simp
    then have l: "length L = 3" by simp
    then have "L \<noteq> []" by auto
    with p m l show ?thesis by simp
  qed
  with p show ?thesis unfolding L_def by blast
qed

theorem kpi_command_report_witness:
  "lower (strip ''  KPI '') = ''kpi''
   \<and> printed (\<lambda>w. snd (console_command 5 ''  KPI '' w)) \<lparr>cal = \<lparr>events = []\<rparr>, stdout = []\<rparr>
       = [Text ''KPI Summary (next 7 days):'', KpiEvents 0, KpiTotal 0, KpiAverage 0]
   \<and> map kpi_estimate (filter (\<lambda>e. 5 \<le> start e \<and> start e \<le> 5 + timedelta 7 0 0)
        (events (cal \<lparr>cal = \<lparr>events = [\<lparr>id_key = ''evt-1'', summary = ''Mock Event 1'', start = 32400000000, end_key = 36000000000, updated = 28800000000, kpi_estimate = 10\<rparr>,
        \<lparr>id_key = ''evt-2'', summary = ''Mock Event 2'', start = 118800000000, end_key = 122400000000, updated = 115200000000, kpi_estimate = 20\<rparr>,
        \<lparr>id_key = ''evt-3'', summary = ''Mock Event 3'', start = 205200000000, end_key = 208800000000, updated = 201600000000, kpi_estimate = 30\<rparr>,
        \<lparr>id_key = ''evt-4'', summary = ''Mock Event 4'', start = 723600000000, end_key = 727200000000, updated = 720000000000, kpi_estimate = 40\<rparr>]\<rparr>, stdout = []\<rparr>))) = [10, 20, 30]
   \<and> printed (\<lambda>w. snd (console_command 5 ''  KPI '' w))
        \<lparr>cal = \<lparr>events = [\<lparr>id_key = ''evt-1'', summary = ''Mock Event 1'', start = 32400000000, end_key = 36000000000, updated = 28800000000, kpi_estimate = 10\<rparr>,
        \<lparr>id_key = ''evt-2'', summary = ''Mock Event 2'', start = 118800000000, end_key = 122400000000, updated = 115200000000, kpi_estimate = 20\<rparr>,
        \<lparr>id_key = ''evt-3'', summary = ''Mock Event 3'', start = 205200000000, end_key = 208800000000, updated = 201600000000, kpi_estimate = 30\<rparr>,
        \<lparr>id_key = ''evt-4'', summary = ''Mock Event 4'', start = 723600000000, end_key = 727200000000, updated = 720000000000, kpi_estimate = 40\<rparr>]\<rparr>, stdout = []\<rparr>
       = [Text ''KPI Summary (next 7 days):'', KpiEvents 3, KpiTotal 60, KpiAverage 20]"
proof -
  have k: "lower (strip ''  KPI '') = ''kpi''" by code_simp
  have m: "map kpi_estimate (filter (\<lambda>e. 5 \<le> start e \<and> start e \<le> 5 + timedelta 7 0 0)
        (events (cal \<lparr>cal = \<lparr>events = [\<lparr>id_key = ''evt-1'', summary = ''Mock Event 1'', start = 32400000000, end_key = 36000000000, updated = 28800000000, kpi_estimate = 10\<rparr>,
        \<lparr>id_key = ''evt-2'', summary = ''Mock Event 2'', start = 118800000000, end_key = 122400000000, updated = 115200000000, kpi_estimate = 20\<rparr>,
        \<lparr>id_key = ''evt-3'', summary = ''Mock Event 3'', start = 205200000000, end_key = 208800000000, updated = 201600000000, kpi_estimate = 30\<rparr>,
        \<lparr>id_key = ''evt-4'', summary = ''Mock Event 4'', start = 723600000000, end_key = 727200000000, updated = 720000000000, kpi_estimate = 40\<rparr>]\<rparr>, stdout = []\<rparr>))) = [10, 20, 30]"
    by (simp add: timedelta_def)
  show ?thesis
    using k m kpi_command_report [OF k, of 5 "\<lparr>cal = \<lparr>events = []\<rparr>, stdout = []\<rparr>", THEN conjunct1]
      kpi_command_report [OF k, of 5 "\<lparr>cal = \<lparr>events = [\<lparr>id_key = ''evt-1'', summary = ''Mock Event 1'', start = 32400000000, end_key = 36000000000, updated = 28800000000, kpi_estimate = 10\<rparr>,
        \<lparr>id_key = ''evt-2'', summary = ''Mock Event 2'', start = 118800000000, end_key = 122400000000, updated = 115200000000, kpi_estimate = 20\<rparr>,
        \<lparr>id_key = ''evt-3'', summary = ''Mock Event 3'', start = 205200000000, end_key = 208800000000, updated = 201600000000, kpi_estimate = 30\<rparr>,
        \<lparr>id_key = ''evt-4'', summary = ''Mock Event 4'', start = 723600000000, end_key = 727200000000, updated = 720000000000, kpi_estimate = 40\<rparr>]\<rparr>, stdout = []\<rparr>", THEN conjunct2, rule_format, OF m]
    by simp
qed

text \<open>
  C10. The week command and the kpi command query the same window [now, now + 7 days] of
  the same store: at one clock reading and one store, the events that week lists are the
  events that kpi sums over, and the count that kpi prints is the number of events that
  week lists.
\<close>

theorem week_kpi_same_window:
  "lower (strip raw_week) = ''week'' \<Longrightarrow> lower (strip raw_kpi) = ''kpi'' \<Longrightarrow>
     \<exists>listed. listed = filter (\<lambda>e. now \<le> start e \<and> start e \<le> now + timedelta 7 0 0) (events (cal w))
       \<and> printed (\<lambda>w. snd (console_command now raw_week w)) w
           = WeekHeader (date now) (date (now + timedelta 7 0 0)) # map format_event listed
       \<and> printed (\<lambda>w. snd (console_command now raw_kpi w)) w ! 1 = KpiEvents (length listed)
       \<and> printed (\<lambda>w. snd (console_command now raw_kpi w)) w ! 2
           = KpiTotal (sum_list (map kpi_estimate listed))"
proof -
  assume wk: "lower (strip raw_week) = ''week''" and k: "lower (strip raw_kpi) = ''kpi''"
  have 1: "printed (\<lambda>w. snd (console_command now raw_week w)) w
      = WeekHeader (date now) (date (now + timedelta 7 0 0))
          # map format_event (list_events (cal w) now (now + timedelta 7 0 0))"
    by (rule printed_append) (simp add: stdout_week [OF wk])
  have 2: "printed (\<lambda>w. snd (console_command now raw_kpi w)) w =
     [Text ''KPI Summary (next 7 days):'',
      KpiEvents (length (list_events (cal w) now (now + timedelta 7 0 0))),
      KpiTotal (sum_list (map kpi_estimate (list_events (cal w) now (now + timedelta 7 0 0)))),
      KpiAverage (if list_events (cal w) now (now + timedelta 7 0 0) = [] then 0
                  else of_int (sum_list (map kpi_estimate (list_events (cal w) now (now + timedelta 7 0 0))))
                       / of_nat (length (list_events (cal w) now (now + timedelta 7 0 0))))]"
    by (rule printed_append) (simp add: stdout_kpi [OF k])
  show ?thesis
    by (simp add: 1 2 list_events_filter)
qed

theorem week_kpi_same_window_witness:
  "lower (strip ''week'') = ''week'' \<and> lower (strip ''Kpi'') = ''kpi''
   \<and> printed (\<lambda>w. snd (console_command 5 ''week'' w))
        \<lparr>cal = \<lparr>events = [\<lparr>id_key = ''evt-1'', summary = ''Mock Event 1'', start = 32400000000, end_key = 36000000000, updated = 28800000000, kpi_estimate = 15\<rparr>,
        \<lparr>id_key = ''evt-2'', summary = ''Mock Event 2'', start = 723600000000, end_key = 727200000000, updated = 720000000000, kpi_estimate = 40\<rparr>,
        \<lparr>id_key = ''evt-3'', summary = ''Mock Event 3'', start = 118800000000, end_key = 122400000000, updated = 115200000000, kpi_estimate = 25\<rparr>,
        \<lparr>id_key = ''evt-4'', summary = ''Mock Event 4'', start = 205200000000, end_key = 208800000000, updated = 201600000000, kpi_estimate = 35\<rparr>]\<rparr>, stdout = []\<rparr>
       = [WeekHeader 0 7, EventLine ''Mock Event 1'' 32400000000 15,
          EventLine ''Mock Event 3'' 118800000000 25, EventLine ''Mock Event 4'' 205200000000 35]
   \<and> printed (\<lambda>w. snd (console_command 5 ''Kpi'' w))
        \<lparr>cal = \<lparr>events = [\<lparr>id_key = ''evt-1'', summary = ''Mock Event 1'', start = 32400000000, end_key = 36000000000, updated = 28800000000, kpi_estimate = 15\<rparr>,
        \<lparr>id_key = ''evt-2'', summary = ''Mock Event 2'', start = 723600000000, end_key = 727200000000, updated = 720000000000, kpi_estimate = 40\<rparr>,
        \<lparr>id_key = ''evt-3'', summary = ''Mock Event 3'', start = 118800000000, end_key = 122400000000, updated = 115200000000, kpi_estimate = 25\<rparr>,
        \<lparr>id_key = ''evt-4'', summary = ''Mock Event 4'', start = 205200000000, end_key = 208800000000, updated = 201600000000, kpi_estimate = 35\<rparr>]\<rparr>, stdout = []\<rparr> ! 1
       = KpiEvents 3
   \<and> printed (\<lambda>w. snd (console_command 5 ''Kpi'' w))
        \<lparr>cal = \<lparr>events = [\<lparr>id_key = ''evt-1'', summary = ''Mock Event 1'', start = 32400000000, end_key = 36000000000, updated = 28800000000, kpi_estimate = 15\<rparr>,
        \<lparr>id_key = ''evt-2'', summary = ''Mock Event 2'', start = 723600000000, end_key = 727200000000, updated = 720000000000, kpi_estimate = 40\<rparr>,
        \<lparr>id_key = ''evt-3'', summary = ''Mock Event 3'', start = 118800000000, end_key = 122400000000, updated = 115200000000, kpi_estimate = 25\<rparr>,
        \<lparr>id_key = ''evt-4'', summary = ''Mock Event 4'', start = 205200000000, end_key = 208800000000, updated = 201600000000, kpi_estimate = 35\<rparr>]\<rparr>, stdout = []\<rparr> ! 2
       = KpiTotal 75"
proof -
  have wk: "lower (strip ''week'') = ''week''" by code_simp
  have k: "lower (strip ''Kpi'') = ''kpi''" by code_simp
  show ?thesis
    using wk k week_kpi_same_window [OF wk k, of 5 "\<lparr>cal = \<lparr>events = [\<lparr>id_key = ''evt-1'', summary = ''Mock Event 1'', start = 32400000000, end_key = 36000000000, updated = 28800000000, kpi_estimate = 15\<rparr>,
        \<lparr>id_key = ''evt-2'', summary = ''Mock Event 2'', start = 723600000000, end_key = 727200000000, updated = 720000000000, kpi_estimate = 40\<rparr>,
        \<lparr>id_key = ''evt-3'', summary = ''Mock Event 3'', start = 118800000000, end_key = 122400000000, updated = 115200000000, kpi_estimate = 25\<rparr>,
        \<lparr>id_key = ''evt-4'', summary = ''Mock Event 4'', start = 205200000000, end_key = 208800000000, updated = 201600000000, kpi_estimate = 35\<rparr>]\<rparr>, stdout = []\<rparr>"]
    by (simp add: date_def timedelta_def format_event_def)
qed

lemma today_window_end: "replace_hour now 0 + timedelta 1 0 (- 1) = replace_hour now 0 + timedelta 0 23 3599"
  by (simp add: timedelta_def)


lemma printed_daily_digest:
  "printed (daily_digest now) w =
     [Text (CHR 0x0A # replicate 40 CHR ''=''), DigestHeader now]
     @ (if filter (\<lambda>e. replace_hour now 0 \<le> start e
             \<and> start e \<le> replace_hour now 0 + timedelta 0 23 3599) (events (cal w)) \<noteq> []
        then map format_event (filter (\<lambda>e. replace_hour now 0 \<le> start e
             \<and> start e \<le> replace_hour now 0 + timedelta 0 23 3599) (events (cal w)))
        else [Text ''No events scheduled for today.''])
     @ [Text (replicate 40 CHR ''='' @ [CHR 0x0A])]"
  by (intro printed_append) (simp add: stdout_daily_digest list_events_filter today_window_end)

lemma exit_command:
  "lower (strip raw) = ''exit'' \<or> lower (strip raw) = ''quit'' \<Longrightarrow>
     console_command now raw w = (Break, print (Text ''Goodbye.'') w)"
  by (auto simp: console_command_def Let_def)

lemma strip_no_break_space:
  "console_command now (''exit'' @ [CHR 0xA0]) w = (Break, print (Text ''Goodbye.'') w)
   \<and> console_command now (CHR 0x85 # ''Quit'') w = (Break, print (Text ''Goodbye.'') w)"
proof
  have 1: "lower (strip (''exit'' @ [CHR 0xA0])) = ''exit''" by code_simp
  show "console_command now (''exit'' @ [CHR 0xA0]) w = (Break, print (Text ''Goodbye.'') w)"
    by (rule exit_command) (rule disjI1, rule 1)
next
  have 2: "lower (strip (CHR 0x85 # ''Quit'')) = ''quit''" by code_simp
  show "console_command now (CHR 0x85 # ''Quit'') w = (Break, print (Text ''Goodbye.'') w)"
    by (rule exit_command) (rule disjI2, rule 2)
qed


text \<open>
  C8. The daily digest and every round of the command loop, whatever the line typed
  (today, week, kpi, help, an empty line, exit or anything else), leave the event store as
  it was, and so does the whole console session. A line that is none of the commands
  prints the diagnostic and nothing else, and the loop goes on to the next input.
\<close>

theorem readers_leave_store_unchanged:
  "cal (daily_digest now w) = cal w
   \<and> cal (snd (console_command now raw w)) = cal w
   \<and> cal (interactive_console CONFIG inputs w) = cal w
   \<and> (lower (strip raw) \<notin> {[], ''exit'', ''quit'', ''help'', ''today'', ''week'', ''kpi''} \<longrightarrow>
        console_command now raw w
          = (Continue, print (Text (''Unknown command. Type '' @ [CHR 0x22] @ ''help'' @ [CHR 0x22] @ ''.'')) w)
        \<and> console_loop ((now, Some raw) # rest) w
          = console_loop rest
              (print (Text (''Unknown command. Type '' @ [CHR 0x22] @ ''help'' @ [CHR 0x22] @ ''.''))
                 (print (Prompt ''> '') w)))"
proof (intro conjI impI)
  show "cal (daily_digest now w) = cal w" by (rule cal_daily_digest)
  show "cal (snd (console_command now raw w)) = cal w" by (rule cal_console_command)
  show "cal (interactive_console CONFIG inputs w) = cal w"
    by (simp add: interactive_console_def Let_def cal_console_loop cal_print)
next
  assume u: "lower (strip raw) \<notin> {[], ''exit'', ''quit'', ''help'', ''today'', ''week'', ''kpi''}"
  have c: "\<And>w. console_command now raw w
      = (Continue, print (Text (''Unknown command. Type '' @ [CHR 0x22] @ ''help'' @ [CHR 0x22] @ ''.'')) w)"
    using u by (simp add: console_command_def Let_def)
  show "console_command now raw w
      = (Continue, print (Text (''Unknown command. Type '' @ [CHR 0x22] @ ''help'' @ [CHR 0x22] @ ''.'')) w)"
    by (rule c)
  show "console_loop ((now, Some raw) # rest) w
          = console_loop rest
              (print (Text (''Unknown command. Type '' @ [CHR 0x22] @ ''help'' @ [CHR 0x22] @ ''.''))
                 (print (Prompt ''> '') w))"
    by (simp add: c)
qed

theorem readers_leave_store_unchanged_witness:
  "lower (strip ''Frobnicate '') \<notin> {[], ''exit'', ''quit'', ''help'', ''today'', ''week'', ''kpi''}
   \<and> console_command 5 ''Frobnicate '' \<lparr>cal = MockCalendar_init 0 (\<lambda>i. i), stdout = []\<rparr>
       = (Continue, \<lparr>cal = MockCalendar_init 0 (\<lambda>i. i),
            stdout = [Text (''Unknown command. Type '' @ [CHR 0x22] @ ''help'' @ [CHR 0x22] @ ''.'')]\<rparr>)"
proof -
  have "lower (strip ''Frobnicate '') = ''frobnicate''" by code_simp
  then have u: "lower (strip ''Frobnicate '') \<notin> {[], ''exit'', ''quit'', ''help'', ''today'', ''week'', ''kpi''}"
    by simp
  show ?thesis
    using u readers_leave_store_unchanged [of 5 "\<lparr>cal = MockCalendar_init 0 (\<lambda>i. i), stdout = []\<rparr>"
        "''Frobnicate ''", THEN conjunct2, THEN conjunct2, THEN conjunct2, rule_format, OF u]
    by (simp add: print_def)
qed

section \<open>Demo mode terminates\<close>

lemma random_unit_bounds: "0 \<le> random_unit r \<and> random_unit r < 1"
proof -
  have "r mod 9007199254740992 < 9007199254740992" by simp
  then have "(of_nat (r mod 9007199254740992) :: rat) < of_nat 9007199254740992"
    by (simp only: of_nat_less_iff)
  then show ?thesis by (simp add: random_unit_def)
qed

lemma uniform_2_6: "2 \<le> uniform 2 6 r \<and> uniform 2 6 r < 6"
  using random_unit_bounds [of r] by (simp add: uniform_def)

lemma demo_iteration_clock: "fst (demo_iteration wall d tw) = fst tw + uniform 2 6 (r_sleep d)"
  by (simp add: demo_iteration_def Let_def split: prod.splits option.splits)

lemma stdout_realtime_alert:
  "stdout (realtime_alert evt action now w) = stdout w @
     [Text (CHR 0x0A # replicate 10 CHR ''!''), AlertHeader action now, format_event evt,
      Text (replicate 10 CHR ''!'' @ [CHR 0x0A])]"
  by (simp add: realtime_alert_def Let_def stdout_print)

lemma demo_iteration_stdout:
  "\<exists>ls. stdout (snd (demo_iteration wall d tw)) = stdout (snd tw) @ ls \<and> filter is_digest_header ls = []"
  by (simp add: demo_iteration_def Let_def stdout_realtime_alert format_event_def
      split: prod.splits option.splits)

lemma demo_loop_exit:
  assumes "\<not> fst tw - t0 < duration"
  shows "\<exists>k t' w' ls. k \<le> n \<and> demo_loop wall t0 duration ds tw = Some (t', w')
       \<and> (t', w') = demo_rounds k wall ds tw
       \<and> duration \<le> t' - t0
       \<and> (fst tw - t0 < duration + 6 \<longrightarrow> t' - t0 < duration + 6)
       \<and> stdout w' = stdout (snd tw) @ ls \<and> filter is_digest_header ls = []"
proof -
  have "demo_loop wall t0 duration ds tw = Some (fst tw, snd tw)"
    using assms by (subst demo_loop.simps) simp
  moreover have "(fst tw, snd tw) = demo_rounds 0 wall ds tw" by simp
  moreover have "stdout (snd tw) = stdout (snd tw) @ []" by simp
  moreover have "filter is_digest_header [] = []" by simp
  moreover have "duration \<le> fst tw - t0" using assms by simp
  moreover have "0 \<le> n" by simp
  ultimately show ?thesis by blast
qed

lemma demo_loop_terminates:
  "nat \<lceil>(duration - (fst tw - t0)) / 2\<rceil> \<le> n \<Longrightarrow>
     \<exists>k t' w' ls. k \<le> n \<and> demo_loop wall t0 duration ds tw = Some (t', w')
       \<and> (t', w') = demo_rounds k wall ds tw
       \<and> duration \<le> t' - t0
       \<and> (fst tw - t0 < duration + 6 \<longrightarrow> t' - t0 < duration + 6)
       \<and> stdout w' = stdout (snd tw) @ ls \<and> filter is_digest_header ls = []"
proof (induction n arbitrary: ds tw)
  case 0
  then have "\<lceil>(duration - (fst tw - t0)) / 2\<rceil> \<le> 0" by simp
  then have "(duration - (fst tw - t0)) / 2 \<le> 0" by (simp add: ceiling_le_zero)
  then have "\<not> fst tw - t0 < duration" by simp
  then show ?case by (rule demo_loop_exit)
next
  case (Suc n)
  show ?case
  proof (cases "fst tw - t0 < duration")
    case False
    then show ?thesis by (rule demo_loop_exit)
  next
    case True
    define tw' where "tw' = demo_iteration wall (shd ds) tw"
    have clk: "fst tw' = fst tw + uniform 2 6 (r_sleep (shd ds))"
      by (simp add: tw'_def demo_iteration_clock)
    have u: "2 \<le> uniform 2 6 (r_sleep (shd ds))" "uniform 2 6 (r_sleep (shd ds)) < 6"
      using uniform_2_6 [of "r_sleep (shd ds)"] by simp_all
    have "duration - (fst tw' - t0) \<le> duration - (fst tw - t0) - 2"
      using clk u by simp
    then have "(duration - (fst tw' - t0)) / 2 \<le> (duration - (fst tw - t0) - 2) / 2"
      by (rule divide_right_mono) simp
    also have "(duration - (fst tw - t0) - 2) / 2 = (duration - (fst tw - t0)) / 2 - 1"
      by (simp add: diff_divide_distrib)
    finally have "(duration - (fst tw' - t0)) / 2 \<le> (duration - (fst tw - t0)) / 2 - 1" .
    then have "\<lceil>(duration - (fst tw' - t0)) / 2\<rceil> \<le> \<lceil>(duration - (fst tw - t0)) / 2 - 1\<rceil>"
      by (rule ceiling_mono)
    also have "\<dots> = \<lceil>(duration - (fst tw - t0)) / 2\<rceil> - 1" by simp
    finally have "nat \<lceil>(duration - (fst tw' - t0)) / 2\<rceil> \<le> n"
      using Suc.prems by linarith
    from Suc.IH [OF this, of "stl ds"]
    obtain k t' w' ls where k: "k \<le> n"
      and r: "demo_loop wall t0 duration (stl ds) tw' = Some (t', w')"
      and rounds: "(t', w') = demo_rounds k wall (stl ds) tw'"
      and lo: "duration \<le> t' - t0"
      and hi: "fst tw' - t0 < duration + 6 \<longrightarrow> t' - t0 < duration + 6"
      and out: "stdout w' = stdout (snd tw') @ ls" and nd: "filter is_digest_header ls = []"
      by blast
    obtain ls0 where out0: "stdout (snd tw') = stdout (snd tw) @ ls0"
      and nd0: "filter is_digest_header ls0 = []"
      using demo_iteration_stdout [of wall "shd ds" tw] by (auto simp: tw'_def)
    have "demo_loop wall t0 duration ds tw = Some (t', w')"
      using True r by (subst demo_loop.simps) (simp add: tw'_def)
    moreover have "(t', w') = demo_rounds (Suc k) wall ds tw"
      using rounds by (simp add: tw'_def)
    moreover have "Suc k \<le> Suc n" using k by simp
    moreover have "t' - t0 < duration + 6"
      using hi clk u True by simp
    moreover have "stdout w' = stdout (snd tw) @ (ls0 @ ls)"
      using out out0 by simp
    moreover have "filter is_digest_header (ls0 @ ls) = []"
      using nd nd0 by simp
    ultimately show ?thesis using lo by blast
  qed
qed

lemma no_digest_header_in_events: "filter is_digest_header (map format_event es) = []"
  by (induction es) (simp_all add: format_event_def)

lemma one_digest_header: "length (filter is_digest_header (printed (daily_digest now) w)) = 1"
  by (simp add: printed_daily_digest no_digest_header_in_events)

lemma stdout_daily_digest_printed:
  "cal w1 = cal w \<Longrightarrow> stdout (daily_digest now w1) = stdout w1 @ printed (daily_digest now) w"
  by (simp add: printed_daily_digest stdout_daily_digest list_events_filter today_window_end)

text \<open>
  C9. Demo mode always returns. It prints the daily digest exactly once, right after its
  opening line and before any alert. Every round of its loop sleeps for at least 2 time
  units, so the loop ends after at most duration / 2 rounds (15 for the duration 30 of the
  program); for a duration of at least 0 the time that has passed when the loop ends is
  at least the duration and less than the duration plus 6, the longest sleep.
\<close>

theorem run_demo_terminates:
  "(\<exists>k t' w' rest. run_demo wall duration ds (t, w) = Some (t', w')
      \<and> k \<le> nat \<lceil>duration / 2\<rceil>
      \<and> t' = fst (demo_rounds k wall ds (t, daily_digest (wall t) (print (DemoStart duration) w)))
      \<and> stdout w' = stdout w @ DemoStart duration # printed (daily_digest (wall t)) w @ rest
      \<and> length (filter is_digest_header (printed (daily_digest (wall t)) w)) = 1
      \<and> filter is_digest_header rest = []
      \<and> (0 \<le> duration \<longrightarrow> duration \<le> t' - t \<and> t' - t < duration + 6))
   \<and> fst tw + 2 \<le> fst (demo_iteration wall d tw)"
proof -
  define w1 where "w1 = print (DemoStart duration) w"
  define w2 where "w2 = daily_digest (wall t) w1"
  have s2: "stdout w2 = stdout w @ DemoStart duration # printed (daily_digest (wall t)) w"
    using stdout_daily_digest_printed [of w1 w "wall t"]
    by (simp add: w2_def w1_def cal_print stdout_print)
  obtain k t' w' ls where k: "k \<le> nat \<lceil>(duration - (fst (t, w2) - t)) / 2\<rceil>"
    and r: "demo_loop wall t duration ds (t, w2) = Some (t', w')"
    and rounds: "(t', w') = demo_rounds k wall ds (t, w2)"
    and lo: "duration \<le> t' - t"
    and hi: "fst (t, w2) - t < duration + 6 \<longrightarrow> t' - t < duration + 6"
    and out: "stdout w' = stdout (snd (t, w2)) @ ls" and nd: "filter is_digest_header ls = []"
    using demo_loop_terminates [of duration "(t, w2)" t "nat \<lceil>(duration - (fst (t, w2) - t)) / 2\<rceil>" wall ds]
    by blast
  have "run_demo wall duration ds (t, w)
      = Some (t', print (Text ''Demo finished. Exiting.'') w')"
    using r by (simp add: run_demo_def Let_def w1_def w2_def)
  moreover have "k \<le> nat \<lceil>duration / 2\<rceil>" using k by simp
  moreover have "t' = fst (demo_rounds k wall ds (t, daily_digest (wall t) (print (DemoStart duration) w)))"
    using rounds [symmetric] by (simp add: w1_def w2_def)
  moreover have "stdout (print (Text ''Demo finished. Exiting.'') w')
      = stdout w @ DemoStart duration # printed (daily_digest (wall t)) w
          @ (ls @ [Text ''Demo finished. Exiting.''])"
    using out s2 by (simp add: stdout_print)
  moreover have "filter is_digest_header (ls @ [Text ''Demo finished. Exiting.'']) = []"
    using nd by simp
  moreover have "0 \<le> duration \<longrightarrow> duration \<le> t' - t \<and> t' - t < duration + 6"
    using lo hi by simp
  moreover have "fst tw + 2 \<le> fst (demo_iteration wall d tw)"
    using uniform_2_6 [of "r_sleep d"] by (simp add: demo_iteration_clock)
  ultimately show ?thesis
    using one_digest_header [of "wall t" w] by blast
qed

theorem run_demo_terminates_witness:
  "(0::rat) \<le> 30
   \<and> (\<exists>(k::nat) t' w'. run_demo (\<lambda>t. 63871252215250000 + \<lfloor>t * 1000000\<rfloor>) 30
          (sconst \<lparr>r_sleep = 123456789, r_coin = 42, r_first = 3, r_second = 4\<rparr>)
          (0, \<lparr>cal = MockCalendar_init 63871252215250000 (\<lambda>i. i), stdout = []\<rparr>) = Some (t', w')
        \<and> k \<le> 15 \<and> 30 \<le> t' - 0 \<and> t' - 0 < 30 + 6)"
  using run_demo_terminates [of "\<lambda>t. 63871252215250000 + \<lfloor>t * 1000000\<rfloor>" 30
      "sconst \<lparr>r_sleep = 123456789, r_coin = 42, r_first = 3, r_second = 4\<rparr>"
      0 "\<lparr>cal = MockCalendar_init 63871252215250000 (\<lambda>i. i), stdout = []\<rparr>",
      THEN conjunct1]
  by auto

end
